theory Spec2Isabelle
  imports Main
begin

section \<open>JavaScript values and errors\<close>

text \<open>
  The middleware and the handlers work on JSON-shaped data: request bodies, decoded token
  claims and response bodies. An object is an association list in which the first binding
  of a key is the one a property read returns. Strings are byte strings: the French
  messages of the source hold the UTF-8 bytes of their accented letters, and the
  quotations of the source in this text show those letters without the accent.
\<close>

datatype jsval =
    JUndefined
  | JNull
  | JBool bool
  | JNum int
  | JStr string
  | JArr "jsval list"
  | JObj "(string \<times> jsval) list"

datatype js_error =
    ReferenceError string
  | TypeError string
  | Error string
  | JsonWebTokenError string
  | TokenExpiredError string
  | PrismaClientError string

text \<open>\<^verbatim>\<open>err.message\<close>\<close>

fun message :: "js_error \<Rightarrow> string" where
  "message (ReferenceError m) = m"
| "message (TypeError m) = m"
| "message (Error m) = m"
| "message (JsonWebTokenError m) = m"
| "message (TokenExpiredError m) = m"
| "message (PrismaClientError m) = m"

text \<open>Truthiness, as \<^verbatim>\<open>!v\<close> and \<^verbatim>\<open>a && b\<close> test it.\<close>

fun truthy :: "jsval \<Rightarrow> bool" where
  "truthy JUndefined = False"
| "truthy JNull = False"
| "truthy (JBool b) = b"
| "truthy (JNum n) = (n \<noteq> 0)"
| "truthy (JStr s) = (s \<noteq> [])"
| "truthy (JArr xs) = True"
| "truthy (JObj fs) = True"

fun typeof :: "jsval \<Rightarrow> string" where
  "typeof JUndefined = ''undefined''"
| "typeof JNull = ''object''"
| "typeof (JBool b) = ''boolean''"
| "typeof (JNum n) = ''number''"
| "typeof (JStr s) = ''string''"
| "typeof (JArr xs) = ''object''"
| "typeof (JObj fs) = ''object''"

text \<open>
  A property read \<^verbatim>\<open>v.k\<close>. Reading a property of \<^verbatim>\<open>undefined\<close> or \<^verbatim>\<open>null\<close> throws a
  TypeError. The properties the sources read (\<^verbatim>\<open>role\<close>, \<^verbatim>\<open>id\<close>, \<^verbatim>\<open>email\<close>, \<^verbatim>\<open>password\<close>) exist
  on no primitive and on no array, so such a read yields \<^verbatim>\<open>undefined\<close> there.
\<close>

fun get_prop :: "jsval \<Rightarrow> string \<Rightarrow> js_error + jsval" where
  "get_prop JUndefined k = Inl (TypeError (''Cannot read properties of undefined (reading '' @ k @ '')''))"
| "get_prop JNull k = Inl (TypeError (''Cannot read properties of null (reading '' @ k @ '')''))"
| "get_prop (JObj fs) k = Inr (case map_of fs k of None \<Rightarrow> JUndefined | Some v \<Rightarrow> v)"
| "get_prop v k = Inr JUndefined"

text \<open>Sequencing of computations that may throw: the first error wins.\<close>

definition and_then :: "js_error + 'a \<Rightarrow> ('a \<Rightarrow> js_error + 'b) \<Rightarrow> js_error + 'b" where
  "and_then r f = (case r of Inl e \<Rightarrow> Inl e | Inr v \<Rightarrow> f v)"

subsection \<open>String methods\<close>

text \<open>
  \<^verbatim>\<open>String.prototype.toLowerCase\<close> and \<^verbatim>\<open>String.prototype.trim\<close> are built-ins of the
  runtime: the first applies the Unicode lower-case mapping, the second removes the white
  space and the line terminators of the language (the no-break space and the byte order
  mark among them) from both ends. Neither is part of the sources. The model takes them
  as parameters: a value of the record below stands for the two methods of the runtime,
  and what is shown of the role check is shown for every such value.
\<close>

record string_prototype =
  toLowerCase :: "string \<Rightarrow> string"
  trim :: "string \<Rightarrow> string"

text \<open>
  The method call \<^verbatim>\<open>v.trim()\<close> on a value: only a string has the method; on
  \<^verbatim>\<open>undefined\<close> and \<^verbatim>\<open>null\<close> the property read throws, on every other value the
  property is \<^verbatim>\<open>undefined\<close> and calling it throws.
\<close>

fun call_trim :: "string_prototype \<Rightarrow> jsval \<Rightarrow> js_error + string" where
  "call_trim sp (JStr s) = Inr (trim sp s)"
| "call_trim sp JUndefined = Inl (TypeError ''Cannot read properties of undefined (reading trim)'')"
| "call_trim sp JNull = Inl (TypeError ''Cannot read properties of null (reading trim)'')"
| "call_trim sp v = Inl (TypeError ''req.user.role.trim is not a function'')"

text \<open>\<^verbatim>\<open>Array.prototype.join\<close>, which \<^verbatim>\<open>string + array\<close> applies with a comma.\<close>

fun join :: "string \<Rightarrow> string list \<Rightarrow> string" where
  "join sep [] = []"
| "join sep [x] = x"
| "join sep (x # y # ys) = x @ sep @ join sep (y # ys)"

text \<open>
  \<^verbatim>\<open>s.split(c)\<close> for a one-character separator: every occurrence separates, so
  consecutive separators give empty pieces and the result is never empty.
\<close>

fun split :: "char \<Rightarrow> string \<Rightarrow> string list" where
  "split c [] = [[]]"
| "split c (x # xs) =
     (if x = c then [] # split c xs
      else (case split c xs of w # ws \<Rightarrow> (x # w) # ws | [] \<Rightarrow> [[x]]))"

text \<open>\<^verbatim>\<open>xs[i]\<close> on an array of strings: \<^verbatim>\<open>undefined\<close> out of range.\<close>

definition index :: "string list \<Rightarrow> nat \<Rightarrow> jsval" where
  "index xs i = (if i < length xs then JStr (xs ! i) else JUndefined)"

subsection \<open>Identifier resolution\<close>

text \<open>
  A module is evaluated in strict mode: an identifier that no enclosing scope binds
  throws a ReferenceError when it is evaluated. A scope is the list of the names bound
  where the expression stands.
\<close>

definition resolve :: "string list \<Rightarrow> string \<Rightarrow> js_error + unit" where
  "resolve scope x = (if x \<in> set scope then Inr () else Inl (ReferenceError (x @ '' is not defined'')))"

section \<open>Requests, responses and the middleware chain\<close>

text \<open>
  Of a request the core reads the \<^verbatim>\<open>authorization\<close> header and the parsed body, and it
  reads and writes \<^verbatim>\<open>req.user\<close>, the identity context (\<^verbatim>\<open>undefined\<close> until a
  middleware sets it).
\<close>

record request =
  authorization :: "string option"
  body :: jsval
  user :: jsval

record response =
  status :: nat
  json :: jsval

text \<open>
  What one stage does with a request: it ends the request with a response, or it calls
  \<^verbatim>\<open>next()\<close> with the request as it has left it, or it throws (for an \<^verbatim>\<open>async\<close>
  handler: its promise rejects) without having written a response.
\<close>

datatype outcome =
    Responded response
  | Next request
  | Threw js_error

definition e_acute :: string where "e_acute = [CHR 0xC3, CHR 0xA9]"
definition e_grave :: string where "e_grave = [CHR 0xC3, CHR 0xA8]"
definition o_circ :: string where "o_circ = [CHR 0xC3, CHR 0xB4]"

section \<open>Role authorization middleware\<close>

text \<open>
  \<^verbatim>\<open>middleware/roles.js\<close> exists in two variants. This is the second one:
  \<^verbatim>\<open>
  export const authorizeRoles = (...allowedRoles) => {
    return (req, res, next) => {
      if (!req.user) return res.status(401).json({ error: "Non authentifie" });
      const role = req.user.role.trim();
      if (!allowedRoles.map(r => r.toLowerCase()).includes(role.toLowerCase())) {
      return res.status(403).json({ error: "Acces interdit pour ce role" });
      }
      next();
    };
  };
  \<close>
\<close>

definition authorizeRoles :: "string_prototype \<Rightarrow> string list \<Rightarrow> request \<Rightarrow> outcome" where
  "authorizeRoles sp allowedRoles req =
     (if \<not> truthy (user req)
      then Responded \<lparr>status = 401, json = JObj [(''error'', JStr (''Non authentifi'' @ e_acute))]\<rparr>
      else (case and_then (get_prop (user req) ''role'') (call_trim sp) of
              Inl e \<Rightarrow> Threw e
            | Inr role \<Rightarrow>
                if \<not> (toLowerCase sp role \<in> set (map (toLowerCase sp) allowedRoles))
                then Responded \<lparr>status = 403,
                       json = JObj [(''error'', JStr (''Acc'' @ e_grave @ ''s interdit pour ce r'' @ o_circ @ ''le''))]\<rparr>
                else Next req))"

text \<open>
  The first variant constructs a persistence handle per request and reports the role and
  the allowed roles in its 403 message. The file holds no import: the names bound where
  \<^verbatim>\<open>new PrismaClient()\<close> stands are the export, the parameters and the local constants.
  \<^verbatim>\<open>
  export const authorizeRoles = (...allowedRoles) => {
    return (req, res, next) => {
      const prisma = new PrismaClient();
      if (!req.user) return res.status(401).json({ error: "Non authentifie" });
      const role = req.user.role.trim();
      if (!allowedRoles.map(r => r.toLowerCase()).includes(role.toLowerCase())) {
      return res.status(403).json({ error: "Acces interdit pour ce role : " + role + " allowed : " + allowedRoles});
      }
      next();
    };
  };
  \<close>
\<close>

definition roles_v1_scope :: "string list" where
  "roles_v1_scope = [''authorizeRoles'', ''allowedRoles'', ''req'', ''res'', ''next'', ''prisma'', ''role'']"

definition authorizeRoles_v1 :: "string_prototype \<Rightarrow> string list \<Rightarrow> request \<Rightarrow> outcome" where
  "authorizeRoles_v1 sp allowedRoles req =
     (case resolve roles_v1_scope ''PrismaClient'' of
        Inl e \<Rightarrow> Threw e
      | Inr prisma \<Rightarrow>
          if \<not> truthy (user req)
          then Responded \<lparr>status = 401, json = JObj [(''error'', JStr (''Non authentifi'' @ e_acute))]\<rparr>
          else (case and_then (get_prop (user req) ''role'') (call_trim sp) of
                  Inl e \<Rightarrow> Threw e
                | Inr role \<Rightarrow>
                    if \<not> (toLowerCase sp role \<in> set (map (toLowerCase sp) allowedRoles))
                    then Responded \<lparr>status = 403,
                           json = JObj [(''error'', JStr (''Acc'' @ e_grave @ ''s interdit pour ce r'' @ o_circ
                                    @ ''le : '' @ role @ '' allowed : '' @ join '','' allowedRoles))]\<rparr>
                    else Next req))"

section \<open>External collaborators\<close>

subsection \<open>Process configuration\<close>

text \<open>
  \<^verbatim>\<open>process.env.ACCESS_TOKEN_SECRET\<close> and \<^verbatim>\<open>process.env.REFRESH_TOKEN_SECRET\<close>:
  a string, or \<^verbatim>\<open>undefined\<close> when the variable is not set.
\<close>

record env =
  ACCESS_TOKEN_SECRET :: "string option"
  REFRESH_TOKEN_SECRET :: "string option"

subsection \<open>Token service\<close>

text \<open>
  Modelled from the spec: the token service (the \<^verbatim>\<open>jsonwebtoken\<close> package, which the
  sources import and which is not part of them). A token is a string that stands for
  claims, the secret that signed it and an expiry time; \<^verbatim>\<open>issue\<close> embeds the claims and
  the expiry \<^verbatim>\<open>now + ttl\<close>, and \<^verbatim>\<open>verify\<close> fails when the token was signed with another
  secret, fails when the current time exceeds the expiry, and otherwise returns the
  decoded claims. The MAC and the string format are not modelled: what a token string
  stands for is given by a pair of functions \<open>enc\<close> and \<open>dec\<close> that every definition below
  takes as parameters. Times are seconds.
\<close>

record jwt =
  claims :: jsval
  signed_with :: string
  issued_at :: nat
  expires_at :: nat

text \<open>
  The time spans the package accepts for \<^verbatim>\<open>expiresIn\<close>, as far as the sources use them:
  a decimal number followed by one of the units \<^verbatim>\<open>s\<close>, \<^verbatim>\<open>m\<close>, \<^verbatim>\<open>h\<close>, \<^verbatim>\<open>d\<close>.
\<close>

definition is_digit :: "char \<Rightarrow> bool" where
  "is_digit c = (let n = (of_char c :: nat) in 48 \<le> n \<and> n \<le> 57)"

definition decimal :: "string \<Rightarrow> nat" where
  "decimal ds = foldl (\<lambda>acc c. 10 * acc + (of_char c - 48)) 0 ds"

definition unit_seconds :: "string \<Rightarrow> nat option" where
  "unit_seconds u =
     (if u = ''s'' then Some 1
      else if u = ''m'' then Some 60
      else if u = ''h'' then Some 3600
      else if u = ''d'' then Some 86400
      else None)"

definition timespan :: "string \<Rightarrow> nat option" where
  "timespan s =
     (let ds = takeWhile is_digit s; u = dropWhile is_digit s
      in if ds = [] then None
         else (case unit_seconds u of None \<Rightarrow> None | Some k \<Rightarrow> Some (decimal ds * k)))"

text \<open>
  \<^verbatim>\<open>jwt.sign(payload, secret, { expiresIn })\<close>. The package throws when the secret is
  missing or empty and when the time span is not understood.
\<close>

definition jwt_sign :: "(jwt \<Rightarrow> string) \<Rightarrow> jsval \<Rightarrow> string option \<Rightarrow> string \<Rightarrow> nat \<Rightarrow> js_error + string" where
  "jwt_sign enc payload secret expiresIn now =
     (case secret of
        None \<Rightarrow> Inl (Error ''secretOrPrivateKey must have a value'')
      | Some k \<Rightarrow>
          if k = [] then Inl (Error ''secretOrPrivateKey must have a value'')
          else (case timespan expiresIn of
                  None \<Rightarrow> Inl (Error ''expiresIn should be a number of seconds or string representing a timespan'')
                | Some ttl \<Rightarrow>
                    Inr (enc \<lparr>claims = payload, signed_with = k, issued_at = now, expires_at = now + ttl\<rparr>)))"

text \<open>
  \<^verbatim>\<open>jwt.verify(token, secret, callback)\<close>: the callback receives an error or the decoded
  claims; the result below is what the callback is called with.
\<close>

definition jwt_verify :: "(string \<Rightarrow> jwt option) \<Rightarrow> jsval \<Rightarrow> string option \<Rightarrow> nat \<Rightarrow> js_error + jsval" where
  "jwt_verify dec token secret now =
     (case token of
        JStr t \<Rightarrow>
          (case dec t of
             None \<Rightarrow> Inl (JsonWebTokenError ''jwt malformed'')
           | Some j \<Rightarrow>
               (case secret of
                  None \<Rightarrow> Inl (JsonWebTokenError ''secret or public key must be provided'')
                | Some k \<Rightarrow>
                    if k = [] then Inl (JsonWebTokenError ''secret or public key must be provided'')
                    else if signed_with j \<noteq> k then Inl (JsonWebTokenError ''invalid signature'')
                    else if expires_at j < now then Inl (TokenExpiredError ''jwt expired'')
                    else Inr (claims j)))
      | _ \<Rightarrow> Inl (JsonWebTokenError ''jwt must be a string''))"

subsection \<open>Credential verifier\<close>

text \<open>
  Modelled from the spec: the credential verifier (the \<^verbatim>\<open>bcryptjs\<close> package, not part of
  the sources). \<open>H\<close> is the salted one-way hash at the salt drawn for this call, as a
  function of the plaintext and the work factor; \<open>V\<close> is the comparison of a plaintext
  with a stored hash. The package rejects an argument that is not a string.
\<close>

definition bcrypt_hash :: "(string \<Rightarrow> nat \<Rightarrow> string) \<Rightarrow> jsval \<Rightarrow> nat \<Rightarrow> js_error + string" where
  "bcrypt_hash H s rounds =
     (case s of
        JStr p \<Rightarrow> Inr (H p rounds)
      | _ \<Rightarrow> Inl (Error (''Illegal arguments: '' @ typeof s @ '', number'')))"

definition bcrypt_compare :: "(string \<Rightarrow> string \<Rightarrow> bool) \<Rightarrow> jsval \<Rightarrow> string \<Rightarrow> js_error + bool" where
  "bcrypt_compare V s hash =
     (case s of
        JStr p \<Rightarrow> Inr (V p hash)
      | _ \<Rightarrow> Inl (Error (''Illegal arguments: '' @ typeof s @ '', string'')))"

subsection \<open>User store\<close>

text \<open>
  Modelled from the spec: the persistence store of the User entity (the Prisma schema of
  the User model and the generated client are not part of the sources). A user is an
  identity record with a unique email, a hashed password and a role label; the store
  offers lookup by email and create, and rejects malformed input. Ids are assigned by
  the store, above every id in use.
\<close>

record user_row =
  user_id :: nat
  user_email :: string
  user_password :: string
  user_role :: string

type_synonym store = "user_row list"

definition row_json :: "user_row \<Rightarrow> jsval" where
  "row_json u =
     JObj [(''id'', JNum (int (user_id u))), (''email'', JStr (user_email u)),
           (''password'', JStr (user_password u)), (''role'', JStr (user_role u))]"

definition fresh_id :: "store \<Rightarrow> nat" where
  "fresh_id db = Suc (foldr max (map user_id db) 0)"

text \<open>\<^verbatim>\<open>prisma.user.create({ data: { email, password, role } })\<close>\<close>

definition user_create :: "store \<Rightarrow> jsval \<Rightarrow> string \<Rightarrow> string \<Rightarrow> js_error + (user_row \<times> store)" where
  "user_create db email password role =
     (case email of
        JStr e \<Rightarrow>
          if e \<in> set (map user_email db)
          then Inl (PrismaClientError ''Unique constraint failed on the fields: (email)'')
          else (let u = \<lparr>user_id = fresh_id db, user_email = e, user_password = password, user_role = role\<rparr>
                in Inr (u, db @ [u]))
      | _ \<Rightarrow> Inl (PrismaClientError ''Invalid invocation: argument email is missing or not a string''))"

text \<open>\<^verbatim>\<open>prisma.user.findUnique({ where: { email } })\<close>: the row, or \<^verbatim>\<open>null\<close>.\<close>

definition user_findUnique :: "store \<Rightarrow> jsval \<Rightarrow> js_error + user_row option" where
  "user_findUnique db email =
     (case email of
        JStr e \<Rightarrow> Inr (find (\<lambda>u. user_email u = e) db)
      | _ \<Rightarrow> Inl (PrismaClientError ''Invalid invocation: argument email is missing or not a string''))"

section \<open>Refresh-token middleware\<close>

text \<open>
  \<^verbatim>\<open>
  export const authenticateRefreshToken = (req, res, next) => {
    const authHeader = req.headers['authorization'];
    const token = authHeader && authHeader.split(' ')[1];
    if (!token) return res.status(401).json({ error: "Token manquant" });
    jwt.verify(token, process.env.REFRESH_TOKEN_SECRET, (err, user) => {
      if (err) return res.status(403).json({ error: "Token invalide" });
      req.user = user;
      next();
    });
  };
  \<close>
  \<^verbatim>\<open>a && b\<close> is \<^verbatim>\<open>a\<close> when \<^verbatim>\<open>a\<close> is falsy: an absent header gives \<^verbatim>\<open>undefined\<close>, an empty
  one the empty string.
\<close>

definition bearer_token :: "string option \<Rightarrow> jsval" where
  "bearer_token authHeader =
     (case authHeader of
        None \<Rightarrow> JUndefined
      | Some h \<Rightarrow> if h = [] then JStr [] else index (split CHR '' '' h) 1)"

definition authenticateRefreshToken :: "(string \<Rightarrow> jwt option) \<Rightarrow> env \<Rightarrow> nat \<Rightarrow> request \<Rightarrow> outcome" where
  "authenticateRefreshToken dec ev now req =
     (let token = bearer_token (authorization req)
      in if \<not> truthy token
         then Responded \<lparr>status = 401, json = JObj [(''error'', JStr ''Token manquant'')]\<rparr>
         else (case jwt_verify dec token (REFRESH_TOKEN_SECRET ev) now of
                 Inl err \<Rightarrow> Responded \<lparr>status = 403, json = JObj [(''error'', JStr ''Token invalide'')]\<rparr>
               | Inr decoded \<Rightarrow> Next (req\<lparr>user := decoded\<rparr>)))"

section \<open>Auth endpoints\<close>

text \<open>
  The names bound where the route handlers of \<^verbatim>\<open>app.js\<close> stand: the imports and constants
  of the module and the globals of the runtime that the module reads. Each handler adds
  its own parameters and local constants.
\<close>

definition app_module_scope :: "string list" where
  "app_module_scope =
     [''express'', ''app'', ''port'', ''PrismaClient'', ''prisma'', ''bcrypt'', ''jwt'',
      ''authenticateToken'', ''authenticateRefreshToken'', ''authorizeRoles'',
      ''swaggerUi'', ''swaggerJsdoc'', ''swaggerOptions'', ''swaggerDocs'',
      ''process'', ''console'', ''parseInt'']"

subsection \<open>Register\<close>

text \<open>
  \<^verbatim>\<open>
  app.post('/api/v1/auth/register', async (req, res) => {
      let { email, password } = req.body;
      const role = 'user';
      password = await bcrypt.hash(password, 10);
    try {
      const newUser = await prisma.user.create({ data: { email, password, role } });
      res.status(201).json(newUser);
    } catch (err) {
      res.status(500).json({ error: err.message });
    }
  });
  \<close>
  The destructuring and the hashing stand before the \<^verbatim>\<open>try\<close>: when one of them throws, the
  handler's promise rejects and the handler has written no response.
\<close>

definition register :: "(string \<Rightarrow> nat \<Rightarrow> string) \<Rightarrow> store \<Rightarrow> request \<Rightarrow> outcome \<times> store" where
  "register H db req =
     (case and_then (get_prop (body req) ''email'') (\<lambda>email.
           and_then (get_prop (body req) ''password'') (\<lambda>password.
           and_then (bcrypt_hash H password 10) (\<lambda>hashed. Inr (email, hashed)))) of
        Inl e \<Rightarrow> (Threw e, db)
      | Inr (email, password) \<Rightarrow>
          (case user_create db email password ''user'' of
             Inl err \<Rightarrow> (Responded \<lparr>status = 500, json = JObj [(''error'', JStr (message err))]\<rparr>, db)
           | Inr (newUser, db') \<Rightarrow> (Responded \<lparr>status = 201, json = row_json newUser\<rparr>, db')))"

subsection \<open>Login\<close>

text \<open>
  \<^verbatim>\<open>
  app.post('/api/v1/auth/login', async (req, res) => {
    const { email, password } = req.body;
    try {
    const user = await prisma.user.findUnique({ where: { email } });
    if (!user) {
        return res.status(400).json({ message: "Utilisateur introuvable" });
    }
    const isValid = await bcrypt.compare(password, user.password);
    if (!isValid) {
        return res.status(400).json({ message: "Mot de passe incorrect" });
    }
    const accessToken = jwt.sign({ userId: user.id, role: user.role },
        process.env.ACCESS_TOKEN_SECRET, { expiresIn: "1d" });
    const refreshToken = jwt.sign({ userId: user.id, role: user.role },
        process.env.REFRESH_TOKEN_SECRET, { expiresIn: "30d" });
    return res.json({ message: "Connexion reussie", accessToken });
    } catch (err) {
      res.status(500).json({ error: err.message });
    }
  });
  \<close>
  \<^verbatim>\<open>res.json\<close> without \<^verbatim>\<open>res.status\<close> answers 200. The handler's result is its outcome
  together with the value of its local constant \<^verbatim>\<open>refreshToken\<close>, when the handler has come
  to bind it: the constant is read nowhere, and the pair makes it observable.
\<close>

definition login ::
  "(string \<Rightarrow> string \<Rightarrow> bool) \<Rightarrow> (jwt \<Rightarrow> string) \<Rightarrow> env \<Rightarrow> nat \<Rightarrow> store \<Rightarrow> request \<Rightarrow> outcome \<times> string option" where
  "login V enc ev now db req =
     (case and_then (get_prop (body req) ''email'') (\<lambda>email.
           and_then (get_prop (body req) ''password'') (\<lambda>password. Inr (email, password))) of
        Inl e \<Rightarrow> (Threw e, None)
      | Inr (email, password) \<Rightarrow>
          (case user_findUnique db email of
             Inl err \<Rightarrow> (Responded \<lparr>status = 500, json = JObj [(''error'', JStr (message err))]\<rparr>, None)
           | Inr None \<Rightarrow>
               (Responded \<lparr>status = 400, json = JObj [(''message'', JStr ''Utilisateur introuvable'')]\<rparr>, None)
           | Inr (Some u) \<Rightarrow>
               (case bcrypt_compare V password (user_password u) of
                  Inl err \<Rightarrow> (Responded \<lparr>status = 500, json = JObj [(''error'', JStr (message err))]\<rparr>, None)
                | Inr isValid \<Rightarrow>
                    if \<not> isValid
                    then (Responded \<lparr>status = 400, json = JObj [(''message'', JStr ''Mot de passe incorrect'')]\<rparr>, None)
                    else (case jwt_sign enc (JObj [(''userId'', JNum (int (user_id u))), (''role'', JStr (user_role u))])
                                 (ACCESS_TOKEN_SECRET ev) ''1d'' now of
                            Inl err \<Rightarrow>
                              (Responded \<lparr>status = 500, json = JObj [(''error'', JStr (message err))]\<rparr>, None)
                          | Inr accessToken \<Rightarrow>
                              (case jwt_sign enc (JObj [(''userId'', JNum (int (user_id u))), (''role'', JStr (user_role u))])
                                      (REFRESH_TOKEN_SECRET ev) ''30d'' now of
                                 Inl err \<Rightarrow>
                                   (Responded \<lparr>status = 500, json = JObj [(''error'', JStr (message err))]\<rparr>, None)
                               | Inr refreshToken \<Rightarrow>
                                   (Responded \<lparr>status = 200,
                                      json = JObj [(''message'', JStr (''Connexion r'' @ e_acute @ ''ussie'')),
                                                   (''accessToken'', JStr accessToken)]\<rparr>,
                                    Some refreshToken))))))"

subsection \<open>Refresh\<close>

text \<open>
  \<^verbatim>\<open>
  app.post('/api/v1/auth/refresh', authenticateRefreshToken, async (req, res) => {
    try {
    const newAccessToken = jwt.sign({ userId: user.id, role: user.role },
      process.env.ACCESS_TOKEN_SECRET, { expiresIn: "1d" });
      res.json({ accessToken: newAccessToken });
    } catch (err) {
      console.error(err);
      res.status(500).json({ error: "Erreur serveur" });
    }
  });
  \<close>
  The payload reads the identifier \<^verbatim>\<open>user\<close>, not \<^verbatim>\<open>req.user\<close>. Where the handler stands
  the names bound are those of the module, the parameters \<^verbatim>\<open>req\<close> and \<^verbatim>\<open>res\<close> and the local
  constant. Were \<^verbatim>\<open>user\<close> bound, its value would come from that binding, which the
  parameter \<open>bound\<close> stands for.
\<close>

definition refresh_handler_scope :: "string list" where
  "refresh_handler_scope = app_module_scope @ [''req'', ''res'', ''newAccessToken'']"

definition refresh_handler :: "(string \<Rightarrow> jsval) \<Rightarrow> (jwt \<Rightarrow> string) \<Rightarrow> env \<Rightarrow> nat \<Rightarrow> request \<Rightarrow> outcome" where
  "refresh_handler bound enc ev now req =
     (case and_then (resolve refresh_handler_scope ''user'') (\<lambda>_.
           and_then (get_prop (bound ''user'') ''id'') (\<lambda>uid.
           and_then (get_prop (bound ''user'') ''role'') (\<lambda>role.
           jwt_sign enc (JObj [(''userId'', uid), (''role'', role)]) (ACCESS_TOKEN_SECRET ev) ''1d'' now))) of
        Inl err \<Rightarrow> Responded \<lparr>status = 500, json = JObj [(''error'', JStr ''Erreur serveur'')]\<rparr>
      | Inr newAccessToken \<Rightarrow> Responded \<lparr>status = 200, json = JObj [(''accessToken'', JStr newAccessToken)]\<rparr>)"

text \<open>
  The route: the refresh-token middleware, then the handler on the request the middleware
  passes on.
\<close>

definition refresh_route ::
  "(string \<Rightarrow> jsval) \<Rightarrow> (string \<Rightarrow> jwt option) \<Rightarrow> (jwt \<Rightarrow> string) \<Rightarrow> env \<Rightarrow> nat \<Rightarrow> request \<Rightarrow> outcome" where
  "refresh_route bound dec enc ev now req =
     (case authenticateRefreshToken dec ev now req of
        Next req' \<Rightarrow> refresh_handler bound enc ev now req'
      | Responded r \<Rightarrow> Responded r
      | Threw e \<Rightarrow> Threw e)"

section \<open>Stated properties\<close>

text \<open>
  The property the role check is meant to decide, in the words of the design: the stored
  role, with surrounding white space removed, equals some allowed role name when letter
  case is ignored. Two strings are equal up to letter case when the runtime lowers them
  to the same string.
\<close>

definition same_ignoring_case :: "string_prototype \<Rightarrow> string \<Rightarrow> string \<Rightarrow> bool" where
  "same_ignoring_case sp a b = (toLowerCase sp a = toLowerCase sp b)"

definition role_permitted :: "string_prototype \<Rightarrow> string list \<Rightarrow> string \<Rightarrow> bool" where
  "role_permitted sp allowedRoles r = list_ex (\<lambda>a. same_ignoring_case sp a (trim sp r)) allowedRoles"

text \<open>
  What follows the scheme word of an \<^verbatim>\<open>Authorization\<close> header: the text between the first
  space and the next one (or the end). It is empty when the header has no space, when
  nothing follows the first space, and when a second space follows the first at once.
\<close>

definition second_word :: "string \<Rightarrow> string" where
  "second_word h = takeWhile (\<lambda>c. c \<noteq> CHR '' '') (drop 1 (dropWhile (\<lambda>c. c \<noteq> CHR '' '') h))"

section \<open>Sample collaborators and requests\<close>

text \<open>
  Concrete stand-ins for the parameters, on which the definitions can be evaluated: the
  two string methods as they act on ASCII strings (the letters A to Z are lowered; tab,
  line feed, vertical tab, form feed, carriage return and space are trimmed), which is
  all the sample roles hold; a hash and its comparison, a token format that keeps only the signing secret, the two
  tokens it decodes, a configuration with both secrets set, and a store with one user
  whose password is \<^verbatim>\<open>pw1\<close>.
\<close>

definition ascii_lower :: "char \<Rightarrow> char" where
  "ascii_lower c =
     (let n = (of_char c :: nat) in if 65 \<le> n \<and> n \<le> 90 then char_of (n + 32) else c)"

definition ascii_white_space :: "char \<Rightarrow> bool" where
  "ascii_white_space c = (let n = (of_char c :: nat) in (9 \<le> n \<and> n \<le> 13) \<or> n = 32)"

definition sample_strings :: string_prototype where
  "sample_strings =
     \<lparr>toLowerCase = map ascii_lower,
      trim = (\<lambda>s. rev (dropWhile ascii_white_space (rev (dropWhile ascii_white_space s))))\<rparr>"

definition sample_hash :: "string \<Rightarrow> nat \<Rightarrow> string" where
  "sample_hash p rounds = ''$2b$'' @ rev p"

definition sample_check :: "string \<Rightarrow> string \<Rightarrow> bool" where
  "sample_check p h = (h = sample_hash p 10)"

definition sample_enc :: "jwt \<Rightarrow> string" where
  "sample_enc j = ''jwt.'' @ signed_with j"

definition sample_dec :: "string \<Rightarrow> jwt option" where
  "sample_dec t =
     (if t = ''jwt.r''
      then Some \<lparr>claims = JObj [(''userId'', JNum 1), (''role'', JStr ''user'')], signed_with = ''r'',
                 issued_at = 0, expires_at = 2592000\<rparr>
      else if t = ''jwt.a''
      then Some \<lparr>claims = JObj [(''userId'', JNum 1), (''role'', JStr ''user'')], signed_with = ''a'',
                 issued_at = 0, expires_at = 86400\<rparr>
      else None)"

definition sample_env :: env where
  "sample_env = \<lparr>ACCESS_TOKEN_SECRET = Some ''a'', REFRESH_TOKEN_SECRET = Some ''r''\<rparr>"

definition sample_store :: store where
  "sample_store =
     [\<lparr>user_id = 1, user_email = ''a@x.com'', user_password = ''$2b$1wp'', user_role = ''user''\<rparr>]"

definition bearer_request :: "string \<Rightarrow> request" where
  "bearer_request h = \<lparr>authorization = Some h, body = JUndefined, user = JUndefined\<rparr>"

definition body_request :: "jsval \<Rightarrow> request" where
  "body_request b = \<lparr>authorization = None, body = b, user = JUndefined\<rparr>"

definition identified_request :: "jsval \<Rightarrow> request" where
  "identified_request u = \<lparr>authorization = None, body = JUndefined, user = u\<rparr>"

section \<open>Auxiliary facts\<close>

lemma role_permitted_iff:
  "role_permitted sp S r \<longleftrightarrow> toLowerCase sp (trim sp r) \<in> set (map (toLowerCase sp) S)"
  unfolding role_permitted_def list_ex_iff same_ignoring_case_def
  by (auto intro: rev_image_eqI)

lemma authorizeRoles_follows_runtime:
  assumes "user req = JObj fs" and "map_of fs ''role'' = Some (JStr r)"
    and "a \<in> set S" and "toLowerCase sp (trim sp r) = toLowerCase sp a"
  shows "authorizeRoles sp S req = Next req"
  using assms by (auto simp: authorizeRoles_def and_then_def)

lemma split_unfold:
  "split c h = takeWhile (\<lambda>x. x \<noteq> c) h #
     (if c \<in> set h then split c (drop 1 (dropWhile (\<lambda>x. x \<noteq> c) h)) else [])"
  by (induction h) (auto split: list.splits)

lemma split_second:
  "index (split c h) 1 =
     (if c \<in> set h then JStr (takeWhile (\<lambda>x. x \<noteq> c) (drop 1 (dropWhile (\<lambda>x. x \<noteq> c) h)))
      else JUndefined)"
proof (cases "c \<in> set h")
  case True
  let ?rest = "drop 1 (dropWhile (\<lambda>x. x \<noteq> c) h)"
  have "split c h = takeWhile (\<lambda>x. x \<noteq> c) h # split c ?rest"
    using True split_unfold [of c h] by simp
  moreover have "split c ?rest = takeWhile (\<lambda>x. x \<noteq> c) ?rest #
      (if c \<in> set ?rest then split c (drop 1 (dropWhile (\<lambda>x. x \<noteq> c) ?rest)) else [])"
    by (rule split_unfold)
  ultimately show ?thesis using True by (simp add: index_def)
next
  case False
  then have "split c h = [takeWhile (\<lambda>x. x \<noteq> c) h]"
    using split_unfold [of c h] by simp
  then show ?thesis using False by (simp add: index_def)
qed

lemma no_space_second_word: "CHR '' '' \<notin> set h \<Longrightarrow> second_word h = []"
proof -
  assume "CHR '' '' \<notin> set h"
  then have d: "dropWhile (\<lambda>c. c \<noteq> CHR '' '') h = []"
    by (intro dropWhile_eq_Nil_conv [THEN iffD2]) auto
  show ?thesis unfolding second_word_def d by simp
qed

lemma bearer_token_falsy_iff:
  "\<not> truthy (bearer_token a) \<longleftrightarrow> (case a of None \<Rightarrow> True | Some h \<Rightarrow> second_word h = [])"
proof (cases a)
  case None
  then show ?thesis by (simp add: bearer_token_def)
next
  case (Some h)
  show ?thesis
  proof (cases "CHR '' '' \<in> set h")
    case True
    then have "h \<noteq> []" by auto
    with True Some show ?thesis
      using split_second [of "CHR '' ''" h] by (simp add: bearer_token_def second_word_def)
  next
    case False
    with Some show ?thesis
      using split_second [of "CHR '' ''" h] no_space_second_word [of h]
      by (simp add: bearer_token_def)
  qed
qed

lemma bearer_token_truthy_is_word:
  "truthy (bearer_token a) \<Longrightarrow> \<exists>h. a = Some h \<and> bearer_token a = JStr (second_word h)"
proof (cases a)
  case None
  assume "truthy (bearer_token a)"
  with None show ?thesis by (simp add: bearer_token_def)
next
  case (Some h)
  assume t: "truthy (bearer_token a)"
  with Some have "h \<noteq> []" by (auto simp: bearer_token_def)
  with t Some show ?thesis
    using split_second [of "CHR '' ''" h]
    by (auto simp: bearer_token_def second_word_def split: if_splits)
qed

lemma verification_error_403:
  assumes "truthy (bearer_token (authorization req))"
    and "jwt_verify dec (bearer_token (authorization req)) (REFRESH_TOKEN_SECRET ev) now = Inl e"
  shows "authenticateRefreshToken dec ev now req =
           Responded \<lparr>status = 403, json = JObj [(''error'', JStr ''Token invalide'')]\<rparr>"
  using assms by (simp add: authenticateRefreshToken_def)

lemma call_trim_not_string: "typeof v \<noteq> ''string'' \<Longrightarrow> \<exists>m. call_trim sp v = Inl (TypeError m)"
  by (cases v) simp_all

lemma timespan_1d: "timespan ''1d'' = Some 86400"
  by (simp add: timespan_def is_digit_def decimal_def unit_seconds_def)

lemma timespan_30d: "timespan ''30d'' = Some 2592000"
  by (simp add: timespan_def is_digit_def decimal_def unit_seconds_def)

lemma user_not_in_scope: "''user'' \<notin> set refresh_handler_scope"
  by (simp add: refresh_handler_scope_def app_module_scope_def)

lemma refresh_handler_responds_500:
  "refresh_handler bound enc ev now req =
     Responded \<lparr>status = 500, json = JObj [(''error'', JStr ''Erreur serveur'')]\<rparr>"
  using user_not_in_scope by (simp add: refresh_handler_def resolve_def and_then_def)

lemma valid_refresh_token_passes:
  assumes "bearer_token (authorization req) = JStr t" and "t \<noteq> []" and "dec t = Some j"
    and "REFRESH_TOKEN_SECRET ev = Some (signed_with j)" and "signed_with j \<noteq> []"
    and "\<not> expires_at j < now"
  shows "authenticateRefreshToken dec ev now req = Next (req\<lparr>user := claims j\<rparr>)"
  using assms by (simp add: authenticateRefreshToken_def jwt_verify_def)

lemma login_200:
  assumes "login V enc ev now db req = (Responded r, loc)" and "status r = 200"
  shows "\<exists>e p u ka kr.
           get_prop (body req) ''email'' = Inr (JStr e)
         \<and> get_prop (body req) ''password'' = Inr (JStr p)
         \<and> find (\<lambda>u. user_email u = e) db = Some u
         \<and> V p (user_password u)
         \<and> ACCESS_TOKEN_SECRET ev = Some ka \<and> ka \<noteq> []
         \<and> REFRESH_TOKEN_SECRET ev = Some kr \<and> kr \<noteq> []
         \<and> r = \<lparr>status = 200,
                 json = JObj [(''message'', JStr (''Connexion r'' @ e_acute @ ''ussie'')),
                              (''accessToken'',
                               JStr (enc \<lparr>claims = JObj [(''userId'', JNum (int (user_id u))), (''role'', JStr (user_role u))],
                                   signed_with = ka, issued_at = now, expires_at = now + 86400\<rparr>))]\<rparr>
         \<and> loc = Some (enc \<lparr>claims = JObj [(''userId'', JNum (int (user_id u))), (''role'', JStr (user_role u))],
                             signed_with = kr, issued_at = now, expires_at = now + 2592000\<rparr>)"
  using assms
  unfolding login_def and_then_def user_findUnique_def bcrypt_compare_def jwt_sign_def
    timespan_1d timespan_30d
  by (auto split: sum.splits option.splits if_splits jsval.splits prod.splits)

lemma login_succeeds:
  assumes "get_prop (body req) ''email'' = Inr (JStr e)"
    and "get_prop (body req) ''password'' = Inr (JStr p)"
    and "find (\<lambda>u. user_email u = e) db = Some u"
    and "V p (user_password u)"
    and "ACCESS_TOKEN_SECRET ev = Some ka" and "ka \<noteq> []"
    and "REFRESH_TOKEN_SECRET ev = Some kr" and "kr \<noteq> []"
  shows "login V enc ev now db req =
           (Responded \<lparr>status = 200,
              json = JObj [(''message'', JStr (''Connexion r'' @ e_acute @ ''ussie'')),
                           (''accessToken'',
                            JStr (enc \<lparr>claims = JObj [(''userId'', JNum (int (user_id u))), (''role'', JStr (user_role u))],
                               signed_with = ka, issued_at = now, expires_at = now + 86400\<rparr>))]\<rparr>,
            Some (enc \<lparr>claims = JObj [(''userId'', JNum (int (user_id u))), (''role'', JStr (user_role u))],
                       signed_with = kr, issued_at = now, expires_at = now + 2592000\<rparr>))"
  using assms
  by (simp add: login_def and_then_def user_findUnique_def bcrypt_compare_def jwt_sign_def
      timespan_1d timespan_30d)

lemma sample_login:
  "login sample_check sample_enc sample_env 100 sample_store
     (body_request (JObj [(''email'', JStr ''a@x.com''), (''password'', JStr ''pw1'')]))
   = (Responded \<lparr>status = 200,
        json = JObj [(''message'', JStr (''Connexion r'' @ e_acute @ ''ussie'')),
                     (''accessToken'', JStr ''jwt.a'')]\<rparr>, Some ''jwt.r'')"
  by (simp add: login_def and_then_def user_findUnique_def bcrypt_compare_def jwt_sign_def
      timespan_1d timespan_30d body_request_def sample_store_def sample_check_def sample_hash_def
      sample_env_def sample_enc_def)

lemma sample_refresh_passes:
  "authenticateRefreshToken sample_dec sample_env 100 (bearer_request ''Bearer jwt.r'')
     = Next ((bearer_request ''Bearer jwt.r'')\<lparr>user := JObj [(''userId'', JNum 1), (''role'', JStr ''user'')]\<rparr>)"
  by (simp add: authenticateRefreshToken_def bearer_token_def bearer_request_def index_def
      jwt_verify_def sample_dec_def sample_env_def)

section \<open>The refresh endpoint\<close>

text \<open>
  C1. The claim: a request to the refresh endpoint that carries a valid refresh token is
  answered 200 with a new access token whose claims are those of the presented token.
  The handler does not do this. At the request below the middleware accepts the token
  and attaches its claims, and the route answers 500 with \<^verbatim>\<open>Erreur serveur\<close>, whatever
  the token format: the handler reads the identifier \<^verbatim>\<open>user\<close>, which nothing binds, and
  its \<^verbatim>\<open>catch\<close> turns the ReferenceError into the 500 response
  (\<open>refresh_handler_responds_500\<close> shows it for every request).
\<close>

theorem refresh_valid_token_responds_500:
  "authenticateRefreshToken sample_dec sample_env 100 (bearer_request ''Bearer jwt.r'')
     = Next ((bearer_request ''Bearer jwt.r'')\<lparr>user := JObj [(''userId'', JNum 1), (''role'', JStr ''user'')]\<rparr>)
   \<and> refresh_route bound sample_dec enc sample_env 100 (bearer_request ''Bearer jwt.r'')
     = Responded \<lparr>status = 500, json = JObj [(''error'', JStr ''Erreur serveur'')]\<rparr>"
  by (simp add: refresh_route_def refresh_handler_responds_500 sample_refresh_passes)

section \<open>The login endpoint\<close>

text \<open>
  C2. For a login request whose email is found and whose password is verified, in a
  process configured with both secrets, the handler binds its local constant
  \<^verbatim>\<open>refreshToken\<close> to the token signed for the user with the refresh secret for 30 days,
  and answers 200 with a body of exactly two fields, \<^verbatim>\<open>message\<close> and \<^verbatim>\<open>accessToken\<close>: the
  refresh token is computed and is not part of the response.
\<close>

theorem login_success_omits_refresh_token:
  assumes "get_prop (body req) ''email'' = Inr (JStr e)"
    and "get_prop (body req) ''password'' = Inr (JStr p)"
    and "find (\<lambda>u. user_email u = e) db = Some u"
    and "V p (user_password u)"
    and "ACCESS_TOKEN_SECRET ev = Some ka" and "ka \<noteq> []"
    and "REFRESH_TOKEN_SECRET ev = Some kr" and "kr \<noteq> []"
  shows "jwt_sign enc (JObj [(''userId'', JNum (int (user_id u))), (''role'', JStr (user_role u))])
             (REFRESH_TOKEN_SECRET ev) ''30d'' now
           = Inr (enc \<lparr>claims = JObj [(''userId'', JNum (int (user_id u))), (''role'', JStr (user_role u))],
                       signed_with = kr, issued_at = now, expires_at = now + 2592000\<rparr>)
         \<and> snd (login V enc ev now db req)
           = Some (enc \<lparr>claims = JObj [(''userId'', JNum (int (user_id u))), (''role'', JStr (user_role u))],
                       signed_with = kr, issued_at = now, expires_at = now + 2592000\<rparr>)
         \<and> fst (login V enc ev now db req)
           = Responded \<lparr>status = 200,
                json = JObj [(''message'', JStr (''Connexion r'' @ e_acute @ ''ussie'')),
                             (''accessToken'',
                              JStr (enc \<lparr>claims = JObj [(''userId'', JNum (int (user_id u))), (''role'', JStr (user_role u))],
                                 signed_with = ka, issued_at = now, expires_at = now + 86400\<rparr>))]\<rparr>"
  using login_succeeds [of req e p db u V ev ka kr enc now] assms
  by (simp add: jwt_sign_def timespan_30d)

theorem login_success_omits_refresh_token_witness:
  "snd (login sample_check sample_enc sample_env 100 sample_store
     (body_request (JObj [(''email'', JStr ''a@x.com''), (''password'', JStr ''pw1'')])))
     = Some ''jwt.r''
   \<and> fst (login sample_check sample_enc sample_env 100 sample_store
     (body_request (JObj [(''email'', JStr ''a@x.com''), (''password'', JStr ''pw1'')])))
     = Responded \<lparr>status = 200,
        json = JObj [(''message'', JStr (''Connexion r'' @ e_acute @ ''ussie'')),
                     (''accessToken'', JStr ''jwt.a'')]\<rparr>"
  using login_success_omits_refresh_token
      [of "body_request (JObj [(''email'', JStr ''a@x.com''), (''password'', JStr ''pw1'')])"
      "''a@x.com''" "''pw1''" sample_store "hd sample_store" sample_check sample_env "''a''" "''r''"
      sample_enc 100]
  by (simp add: body_request_def sample_store_def sample_check_def sample_hash_def sample_env_def
      sample_enc_def)

text \<open>
  C8. Whenever login answers 200, the access token in the response stands for the claims
  \<^verbatim>\<open>{userId, role}\<close> of a stored user, signed with \<^verbatim>\<open>ACCESS_TOKEN_SECRET\<close> and expiring
  86400 seconds (1 day) after the time of issue, and the refresh token the handler has
  computed stands for the same claims, signed with \<^verbatim>\<open>REFRESH_TOKEN_SECRET\<close> and expiring
  30 days after the time of issue. The refresh-token middleware passes a request on only
  when the presented token was signed with \<^verbatim>\<open>REFRESH_TOKEN_SECRET\<close> (and has not
  expired), and what it does never depends on \<^verbatim>\<open>ACCESS_TOKEN_SECRET\<close>.
\<close>

theorem token_secrets_and_lifetimes:
  "(login V enc ev now db req = (Responded r, loc) \<and> status r = 200 \<longrightarrow>
      (\<exists>u ka kr.
          u \<in> set db
        \<and> ACCESS_TOKEN_SECRET ev = Some ka \<and> REFRESH_TOKEN_SECRET ev = Some kr
        \<and> get_prop (json r) ''accessToken'' =
            Inr (JStr (enc \<lparr>claims = JObj [(''userId'', JNum (int (user_id u))), (''role'', JStr (user_role u))],
                            signed_with = ka, issued_at = now, expires_at = now + 86400\<rparr>))
        \<and> loc = Some (enc \<lparr>claims = JObj [(''userId'', JNum (int (user_id u))), (''role'', JStr (user_role u))],
                            signed_with = kr, issued_at = now, expires_at = now + 30 * 86400\<rparr>)))
   \<and> (authenticateRefreshToken dec ev t rq = Next rq' \<longrightarrow>
      (\<exists>tok j. bearer_token (authorization rq) = JStr tok \<and> dec tok = Some j
        \<and> REFRESH_TOKEN_SECRET ev = Some (signed_with j) \<and> \<not> expires_at j < t
        \<and> rq' = rq\<lparr>user := claims j\<rparr>))
   \<and> authenticateRefreshToken dec (ev\<lparr>ACCESS_TOKEN_SECRET := x\<rparr>) t rq
       = authenticateRefreshToken dec ev t rq"
proof (intro conjI impI)
  assume "login V enc ev now db req = (Responded r, loc) \<and> status r = 200"
  then obtain e u ka kr where
    f: "find (\<lambda>u. user_email u = e) db = Some u"
    and k: "ACCESS_TOKEN_SECRET ev = Some ka" "REFRESH_TOKEN_SECRET ev = Some kr"
    and r: "r = \<lparr>status = 200,
                 json = JObj [(''message'', JStr (''Connexion r'' @ e_acute @ ''ussie'')),
                              (''accessToken'',
                               JStr (enc \<lparr>claims = JObj [(''userId'', JNum (int (user_id u))), (''role'', JStr (user_role u))],
                                   signed_with = ka, issued_at = now, expires_at = now + 86400\<rparr>))]\<rparr>"
    and l: "loc = Some (enc \<lparr>claims = JObj [(''userId'', JNum (int (user_id u))), (''role'', JStr (user_role u))],
                                   signed_with = kr, issued_at = now, expires_at = now + 2592000\<rparr>)"
    using login_200 [of V enc ev now db req r loc] by blast
  from f have "u \<in> set db" by (auto simp: find_Some_iff)
  with k r l show "\<exists>u ka kr.
          u \<in> set db
        \<and> ACCESS_TOKEN_SECRET ev = Some ka \<and> REFRESH_TOKEN_SECRET ev = Some kr
        \<and> get_prop (json r) ''accessToken'' =
            Inr (JStr (enc \<lparr>claims = JObj [(''userId'', JNum (int (user_id u))), (''role'', JStr (user_role u))],
                            signed_with = ka, issued_at = now, expires_at = now + 86400\<rparr>))
        \<and> loc = Some (enc \<lparr>claims = JObj [(''userId'', JNum (int (user_id u))), (''role'', JStr (user_role u))],
                            signed_with = kr, issued_at = now, expires_at = now + 30 * 86400\<rparr>)"
    by auto
next
  assume "authenticateRefreshToken dec ev t rq = Next rq'"
  then show "\<exists>tok j. bearer_token (authorization rq) = JStr tok \<and> dec tok = Some j
        \<and> REFRESH_TOKEN_SECRET ev = Some (signed_with j) \<and> \<not> expires_at j < t
        \<and> rq' = rq\<lparr>user := claims j\<rparr>"
    by (auto simp: authenticateRefreshToken_def jwt_verify_def Let_def
        split: if_splits sum.splits jsval.splits option.splits)
next
  show "authenticateRefreshToken dec (ev\<lparr>ACCESS_TOKEN_SECRET := x\<rparr>) t rq
       = authenticateRefreshToken dec ev t rq"
    by (simp add: authenticateRefreshToken_def Let_def)
qed

theorem token_secrets_and_lifetimes_witness:
  "login sample_check sample_enc sample_env 100 sample_store
     (body_request (JObj [(''email'', JStr ''a@x.com''), (''password'', JStr ''pw1'')]))
   = (Responded \<lparr>status = 200,
        json = JObj [(''message'', JStr (''Connexion r'' @ e_acute @ ''ussie'')),
                     (''accessToken'', JStr ''jwt.a'')]\<rparr>, Some ''jwt.r'')
   \<and> authenticateRefreshToken sample_dec sample_env 100 (bearer_request ''Bearer jwt.r'')
      = Next ((bearer_request ''Bearer jwt.r'')\<lparr>user := JObj [(''userId'', JNum 1), (''role'', JStr ''user'')]\<rparr>)
   \<and> (\<exists>u ka kr.
          u \<in> set sample_store
        \<and> ACCESS_TOKEN_SECRET sample_env = Some ka \<and> REFRESH_TOKEN_SECRET sample_env = Some kr
        \<and> Some ''jwt.r'' =
            Some (sample_enc \<lparr>claims = JObj [(''userId'', JNum (int (user_id u))), (''role'', JStr (user_role u))],
                    signed_with = kr, issued_at = 100, expires_at = 100 + 30 * 86400\<rparr>))
   \<and> (\<exists>tok j. bearer_token (authorization (bearer_request ''Bearer jwt.r'')) = JStr tok
        \<and> sample_dec tok = Some j
        \<and> REFRESH_TOKEN_SECRET sample_env = Some (signed_with j) \<and> \<not> expires_at j < 100)"
  using token_secrets_and_lifetimes [of sample_check sample_enc sample_env 100 sample_store
        "body_request (JObj [(''email'', JStr ''a@x.com''), (''password'', JStr ''pw1'')])"
        "\<lparr>status = 200,
        json = JObj [(''message'', JStr (''Connexion r'' @ e_acute @ ''ussie'')),
                     (''accessToken'', JStr ''jwt.a'')]\<rparr>" "Some ''jwt.r''"
        sample_dec 100 "bearer_request ''Bearer jwt.r''"
        "(bearer_request ''Bearer jwt.r'')\<lparr>user := JObj [(''userId'', JNum 1), (''role'', JStr ''user'')]\<rparr>"
        "Some ''a''"]
      sample_login sample_refresh_passes
  by auto

section \<open>The refresh-token middleware\<close>

text \<open>
  C3. When the \<^verbatim>\<open>Authorization\<close> header yields no bearer token (the header is absent, or
  no token follows the scheme word), the middleware answers 401 with \<^verbatim>\<open>Token manquant\<close>
  and does not call the next stage, so that the handler of the route does not run. The
  token-verifying middleware in the sources is \<^verbatim>\<open>authenticateRefreshToken\<close>.
\<close>

theorem missing_bearer_token_401:
  assumes "case authorization req of None \<Rightarrow> True | Some h \<Rightarrow> second_word h = []"
  shows "authenticateRefreshToken dec ev now req =
           Responded \<lparr>status = 401, json = JObj [(''error'', JStr ''Token manquant'')]\<rparr>
         \<and> (\<forall>req'. authenticateRefreshToken dec ev now req \<noteq> Next req')
         \<and> refresh_route bound dec enc ev now req =
           Responded \<lparr>status = 401, json = JObj [(''error'', JStr ''Token manquant'')]\<rparr>"
proof -
  have "authenticateRefreshToken dec ev now req =
          Responded \<lparr>status = 401, json = JObj [(''error'', JStr ''Token manquant'')]\<rparr>"
    using assms bearer_token_falsy_iff [of "authorization req"]
    by (simp add: authenticateRefreshToken_def)
  then show ?thesis by (simp add: refresh_route_def)
qed

theorem missing_bearer_token_401_witness:
  "authenticateRefreshToken sample_dec sample_env 100 (identified_request JUndefined)
     = Responded \<lparr>status = 401, json = JObj [(''error'', JStr ''Token manquant'')]\<rparr>
   \<and> second_word ''Bearer'' = []
   \<and> authenticateRefreshToken sample_dec sample_env 100 (bearer_request ''Bearer'')
     = Responded \<lparr>status = 401, json = JObj [(''error'', JStr ''Token manquant'')]\<rparr>
   \<and> second_word ''Bearer  jwt.r'' = []
   \<and> authenticateRefreshToken sample_dec sample_env 100 (bearer_request ''Bearer  jwt.r'')
     = Responded \<lparr>status = 401, json = JObj [(''error'', JStr ''Token manquant'')]\<rparr>"
  using missing_bearer_token_401 [of "identified_request JUndefined" sample_dec sample_env 100]
    missing_bearer_token_401 [of "bearer_request ''Bearer''" sample_dec sample_env 100]
    missing_bearer_token_401 [of "bearer_request ''Bearer  jwt.r''" sample_dec sample_env 100]
  by (simp add: bearer_request_def identified_request_def second_word_def)

text \<open>
  C4. When a token is presented and its verification fails, because the token is malformed
  (it decodes to nothing), because it was not signed with the refresh secret, or because
  it has expired, the middleware answers with one and the same response, 403 with
  \<^verbatim>\<open>Token invalide\<close>, and does not call the next stage, so that the handler of the
  route does not run.
\<close>

theorem failed_verification_403:
  assumes "bearer_token (authorization req) = JStr t" and "t \<noteq> []"
    and "dec t = None
         \<or> (\<exists>j. dec t = Some j \<and> (REFRESH_TOKEN_SECRET ev \<noteq> Some (signed_with j) \<or> expires_at j < now))"
  shows "authenticateRefreshToken dec ev now req =
           Responded \<lparr>status = 403, json = JObj [(''error'', JStr ''Token invalide'')]\<rparr>
         \<and> (\<forall>req'. authenticateRefreshToken dec ev now req \<noteq> Next req')
         \<and> refresh_route bound dec enc ev now req =
           Responded \<lparr>status = 403, json = JObj [(''error'', JStr ''Token invalide'')]\<rparr>"
proof -
  have "\<exists>e. jwt_verify dec (JStr t) (REFRESH_TOKEN_SECRET ev) now = Inl e"
    using assms(3) by (auto simp: jwt_verify_def split: option.splits)
  then obtain e where "jwt_verify dec (bearer_token (authorization req)) (REFRESH_TOKEN_SECRET ev) now = Inl e"
    using assms(1) by auto
  moreover have "truthy (bearer_token (authorization req))"
    using assms(1,2) by simp
  ultimately have "authenticateRefreshToken dec ev now req =
      Responded \<lparr>status = 403, json = JObj [(''error'', JStr ''Token invalide'')]\<rparr>"
    using verification_error_403 [of req dec ev now e] by simp
  then show ?thesis by (simp add: refresh_route_def)
qed

theorem failed_verification_403_witness:
  "sample_dec ''garbage'' = None
   \<and> authenticateRefreshToken sample_dec sample_env 100 (bearer_request ''Bearer garbage'')
     = Responded \<lparr>status = 403, json = JObj [(''error'', JStr ''Token invalide'')]\<rparr>
   \<and> REFRESH_TOKEN_SECRET sample_env \<noteq> Some ''a''
   \<and> authenticateRefreshToken sample_dec sample_env 100 (bearer_request ''Bearer jwt.a'')
     = Responded \<lparr>status = 403, json = JObj [(''error'', JStr ''Token invalide'')]\<rparr>
   \<and> (2592000::nat) < 2592001
   \<and> authenticateRefreshToken sample_dec sample_env 2592001 (bearer_request ''Bearer jwt.r'')
     = Responded \<lparr>status = 403, json = JObj [(''error'', JStr ''Token invalide'')]\<rparr>"
  using failed_verification_403 [of "bearer_request ''Bearer garbage''" "''garbage''" sample_dec sample_env 100]
    failed_verification_403 [of "bearer_request ''Bearer jwt.a''" "''jwt.a''" sample_dec sample_env 100]
    failed_verification_403 [of "bearer_request ''Bearer jwt.r''" "''jwt.r''" sample_dec sample_env 2592001]
  by (simp add: bearer_request_def bearer_token_def index_def sample_dec_def sample_env_def)

section \<open>The role authorization middleware\<close>

text \<open>
  C5. For an identity context whose role is the string \<open>r\<close> and for allowed roles \<open>S\<close>, the
  middleware (second variant) calls the next stage exactly when \<open>r\<close>, trimmed, equals some
  element of \<open>S\<close> up to letter case, and then passes the request on as it came, identity
  context included; otherwise it answers 403 and does not call the next stage. This holds
  whatever the runtime's \<^verbatim>\<open>trim\<close> removes and whatever its \<^verbatim>\<open>toLowerCase\<close> lowers.
\<close>

theorem authorizeRoles_passes_iff_role_permitted:
  assumes "user req = JObj fs" and "map_of fs ''role'' = Some (JStr r)"
  shows "authorizeRoles sp S req =
           (if role_permitted sp S r then Next req
            else Responded \<lparr>status = 403,
                   json = JObj [(''error'', JStr (''Acc'' @ e_grave @ ''s interdit pour ce r'' @ o_circ @ ''le''))]\<rparr>)"
  using assms by (simp add: authorizeRoles_def and_then_def role_permitted_iff)

theorem authorizeRoles_passes_iff_role_permitted_witness:
  "trim sample_strings '' ADMIN '' = ''ADMIN''
   \<and> toLowerCase sample_strings ''ADMIN'' = ''admin''
   \<and> role_permitted sample_strings [''admin''] '' ADMIN ''
   \<and> authorizeRoles sample_strings [''admin'']
        (identified_request (JObj [(''userId'', JNum 1), (''role'', JStr '' ADMIN '')]))
     = Next (identified_request (JObj [(''userId'', JNum 1), (''role'', JStr '' ADMIN '')]))
   \<and> \<not> role_permitted sample_strings [''admin''] ''user''
   \<and> authorizeRoles sample_strings [''admin'']
        (identified_request (JObj [(''userId'', JNum 1), (''role'', JStr ''user'')]))
     = Responded \<lparr>status = 403,
                   json = JObj [(''error'', JStr (''Acc'' @ e_grave @ ''s interdit pour ce r'' @ o_circ @ ''le''))]\<rparr>"
proof -
  have t: "trim sample_strings '' ADMIN '' = ''ADMIN''" by code_simp
  have l: "toLowerCase sample_strings ''ADMIN'' = ''admin''" by code_simp
  have p: "role_permitted sample_strings [''admin''] '' ADMIN ''" by code_simp
  have n: "\<not> role_permitted sample_strings [''admin''] ''user''" by code_simp
  show ?thesis
    using t l p n
      authorizeRoles_passes_iff_role_permitted
        [of "identified_request (JObj [(''userId'', JNum 1), (''role'', JStr '' ADMIN '')])"
        "[(''userId'', JNum 1), (''role'', JStr '' ADMIN '')]" "'' ADMIN ''" sample_strings "[''admin'']"]
      authorizeRoles_passes_iff_role_permitted
        [of "identified_request (JObj [(''userId'', JNum 1), (''role'', JStr ''user'')])"
        "[(''userId'', JNum 1), (''role'', JStr ''user'')]" "''user''" sample_strings "[''admin'']"]
    by (simp add: identified_request_def)
qed

text \<open>
  C9. The first variant of the role middleware evaluates \<^verbatim>\<open>new PrismaClient()\<close> first, and
  its module binds no \<^verbatim>\<open>PrismaClient\<close>: for every list of allowed roles and every request
  the middleware throws a ReferenceError, so it never answers 401 or 403 and never calls
  the next stage.
\<close>

theorem authorizeRoles_v1_always_throws:
  "''PrismaClient'' \<notin> set roles_v1_scope
   \<and> authorizeRoles_v1 sp S req = Threw (ReferenceError ''PrismaClient is not defined'')
   \<and> (\<forall>r. authorizeRoles_v1 sp S req \<noteq> Responded r)
   \<and> (\<forall>req'. authorizeRoles_v1 sp S req \<noteq> Next req')"
  by (simp add: authorizeRoles_v1_def resolve_def roles_v1_scope_def)

text \<open>
  C10. When the identity context is present (truthy) and its role is absent or is not a
  string, the middleware (second variant) throws a TypeError at \<^verbatim>\<open>req.user.role.trim()\<close>:
  it produces neither a 401 nor a 403 response.
\<close>

theorem authorizeRoles_role_not_string_throws:
  assumes "truthy (user req)" and "get_prop (user req) ''role'' = Inr v" and "typeof v \<noteq> ''string''"
  shows "\<exists>m. authorizeRoles sp S req = Threw (TypeError m)"
  using assms call_trim_not_string [of v sp] by (auto simp add: authorizeRoles_def and_then_def)

theorem authorizeRoles_role_not_string_throws_witness:
  "(\<exists>m. authorizeRoles sample_strings [''admin''] (identified_request (JObj [(''userId'', JNum 1)]))
      = Threw (TypeError m))
   \<and> (\<exists>m. authorizeRoles sample_strings [''admin'']
          (identified_request (JObj [(''userId'', JNum 1), (''role'', JNum 7)]))
        = Threw (TypeError m))"
  using authorizeRoles_role_not_string_throws
      [of "identified_request (JObj [(''userId'', JNum 1)])" JUndefined sample_strings "[''admin'']"]
    authorizeRoles_role_not_string_throws
      [of "identified_request (JObj [(''userId'', JNum 1), (''role'', JNum 7)])" "JNum 7"
        sample_strings "[''admin'']"]
  by (simp add: identified_request_def)

section \<open>The register endpoint\<close>

text \<open>
  C6. Whenever register answers 201, the body held a string email and a string password,
  the store has gained exactly one user, whose role is \<^verbatim>\<open>user\<close> and whose password field
  is the hash of the submitted password at work factor 10, and the response body is that
  whole record, its \<^verbatim>\<open>password\<close> field holding the hash.
\<close>

theorem register_success_persists_hashed_user:
  assumes "register H db req = (Responded r, db')" and "status r = 201"
  shows "\<exists>e p u.
           get_prop (body req) ''email'' = Inr (JStr e)
         \<and> get_prop (body req) ''password'' = Inr (JStr p)
         \<and> u = \<lparr>user_id = fresh_id db, user_email = e, user_password = H p 10, user_role = ''user''\<rparr>
         \<and> db' = db @ [u]
         \<and> json r = row_json u
         \<and> get_prop (json r) ''password'' = Inr (JStr (H p 10))"
  using assms
  unfolding register_def and_then_def bcrypt_hash_def user_create_def
  by (auto simp: Let_def row_json_def split: sum.splits jsval.splits if_splits prod.splits)

theorem register_success_persists_hashed_user_witness:
  "register sample_hash [] (body_request (JObj [(''email'', JStr ''a@x.com''), (''password'', JStr ''pw1'')]))
     = (Responded \<lparr>status = 201,
          json = JObj [(''id'', JNum 1), (''email'', JStr ''a@x.com''),
                       (''password'', JStr ''$2b$1wp''), (''role'', JStr ''user'')]\<rparr>,
        [\<lparr>user_id = 1, user_email = ''a@x.com'', user_password = ''$2b$1wp'', user_role = ''user''\<rparr>])
   \<and> (\<exists>e p u.
           get_prop (JObj [(''email'', JStr ''a@x.com''), (''password'', JStr ''pw1'')]) ''password'' = Inr (JStr p)
         \<and> u = \<lparr>user_id = fresh_id [], user_email = e, user_password = sample_hash p 10, user_role = ''user''\<rparr>
         \<and> [\<lparr>user_id = 1, user_email = ''a@x.com'', user_password = ''$2b$1wp'', user_role = ''user''\<rparr>]
             = [] @ [u])"
proof -
  have r: "register sample_hash []
             (body_request (JObj [(''email'', JStr ''a@x.com''), (''password'', JStr ''pw1'')]))
     = (Responded \<lparr>status = 201,
          json = JObj [(''id'', JNum 1), (''email'', JStr ''a@x.com''),
                       (''password'', JStr ''$2b$1wp''), (''role'', JStr ''user'')]\<rparr>,
        [\<lparr>user_id = 1, user_email = ''a@x.com'', user_password = ''$2b$1wp'', user_role = ''user''\<rparr>])"
    by (simp add: register_def and_then_def bcrypt_hash_def user_create_def Let_def fresh_id_def
        row_json_def body_request_def sample_hash_def)
  show ?thesis
    using r register_success_persists_hashed_user [of sample_hash "[]"
        "body_request (JObj [(''email'', JStr ''a@x.com''), (''password'', JStr ''pw1'')])"
        "\<lparr>status = 201,
          json = JObj [(''id'', JNum 1), (''email'', JStr ''a@x.com''),
                       (''password'', JStr ''$2b$1wp''), (''role'', JStr ''user'')]\<rparr>"
        "[\<lparr>user_id = 1, user_email = ''a@x.com'', user_password = ''$2b$1wp'', user_role = ''user''\<rparr>]"]
    by (auto simp: body_request_def)
qed




end
